theory Spec2Isabelle
  imports Complex_Main
begin

chapter \<open>The model\<close>

section \<open>Values and exceptions\<close>

text \<open>
  The values \<^verbatim>\<open>JSON.parse\<close> can return. \<^verbatim>\<open>parseModelJSON\<close> answers with the same
  type: its \<^verbatim>\<open>return null\<close> is the value \<open>JNull\<close>, which is what the specification
  calls Empty. Strings are lists of 8-bit code units; numbers are the integers.
\<close>

datatype json =
    JNull
  | JBool bool
  | JNumber int
  | JString string
  | JArray "json list"
  | JObject "(string \<times> json) list"

fun is_object :: "json \<Rightarrow> bool" where
  "is_object (JObject ms) = True"
| "is_object v = False"

text \<open>The exceptions of the platform that the modelled code can meet.\<close>

datatype exn =
    SyntaxError
  | InvalidCharacterError
  | RangeError
  | NotSupportedError
  | NotAllowedError
  | NetworkError
  | InvalidStateError

section \<open>String operations of the platform\<close>

text \<open>
  \<^verbatim>\<open>s.replace(/pat/g, '')\<close> for a literal, non-empty pattern: every occurrence found
  scanning from the left is removed, and the scan continues after the occurrence.
\<close>

fun remove_all :: "string \<Rightarrow> string \<Rightarrow> string" where
  "remove_all pat [] = []"
| "remove_all pat (c # cs) =
     (if pat \<noteq> [] \<and> take (length pat) (c # cs) = pat
      then remove_all pat (drop (length pat - 1) cs)
      else c # remove_all pat cs)"

text \<open>
  \<^verbatim>\<open>s.trim()\<close>: the white space and line terminators of ECMAScript that are 8-bit
  code units (tab, line feed, vertical tab, form feed, carriage return, space,
  no-break space).
\<close>

definition js_space :: "char \<Rightarrow> bool" where
  "js_space c = (c = CHR 0x09 \<or> c = CHR 0x0A \<or> c = CHR 0x0B \<or> c = CHR 0x0C
                \<or> c = CHR 0x0D \<or> c = CHR 0x20 \<or> c = CHR 0xA0)"

definition trim :: "string \<Rightarrow> string" where
  "trim s = rev (dropWhile js_space (rev (dropWhile js_space s)))"

text \<open>\<^verbatim>\<open>s.indexOf(c)\<close> and \<^verbatim>\<open>s.lastIndexOf(c)\<close>; the answer \<^verbatim>\<open>-1\<close> is \<open>None\<close>.\<close>

fun indexOf :: "string \<Rightarrow> char \<Rightarrow> nat option" where
  "indexOf [] c = None"
| "indexOf (x # xs) c =
     (if x = c then Some 0
      else (case indexOf xs c of None \<Rightarrow> None | Some i \<Rightarrow> Some (Suc i)))"

fun lastIndexOf :: "string \<Rightarrow> char \<Rightarrow> nat option" where
  "lastIndexOf [] c = None"
| "lastIndexOf (x # xs) c =
     (case lastIndexOf xs c of
        Some i \<Rightarrow> Some (Suc i)
      | None \<Rightarrow> (if x = c then Some 0 else None))"

text \<open>\<^verbatim>\<open>s.substring(start)\<close> and \<^verbatim>\<open>s.substring(0, stop)\<close>.\<close>

definition substring_from :: "string \<Rightarrow> nat \<Rightarrow> string" where
  "substring_from s start = drop start s"

definition substring_to :: "string \<Rightarrow> nat \<Rightarrow> string" where
  "substring_to s stop = take stop s"

section \<open>Computations that may throw and that call the decoder\<close>

text \<open>
  A computation of \<^verbatim>\<open>parseModelJSON\<close> either returns a value or throws, and it may call
  \<^verbatim>\<open>JSON.parse\<close>. The state it threads is the list of the strings handed to
  \<^verbatim>\<open>JSON.parse\<close> so far, in call order. The decoder is a parameter: it answers each
  string with a value or with an exception.
\<close>

type_synonym decoder = "string \<Rightarrow> exn + json"

type_synonym 'a js = "string list \<Rightarrow> (exn + 'a) \<times> string list"

definition js_return :: "'a \<Rightarrow> 'a js" where
  "js_return v = (\<lambda>calls. (Inr v, calls))"

text \<open>\<^verbatim>\<open>try { m } catch (e) { h(e) }\<close>\<close>

definition try_catch :: "'a js \<Rightarrow> (exn \<Rightarrow> 'a js) \<Rightarrow> 'a js" where
  "try_catch m h =
     (\<lambda>calls. case m calls of
                 (Inl e, calls') \<Rightarrow> h e calls'
               | (Inr v, calls') \<Rightarrow> (Inr v, calls'))"

text \<open>\<^verbatim>\<open>JSON.parse(s)\<close>\<close>

definition JSON_parse_call :: "decoder \<Rightarrow> string \<Rightarrow> json js" where
  "JSON_parse_call jp s = (\<lambda>calls. (jp s, calls @ [s]))"

section \<open>The parser \<^verbatim>\<open>parseModelJSON\<close>\<close>

text \<open>
  The loop of stage 4:
  \<^verbatim>\<open>
  let balance = 0; let end = -1;
  for (let i = 0; i < clean.length; i++) {
      if (clean[i] === '{') balance++;
      else if (clean[i] === '}') {
          balance--;
          if (balance === 0) { end = i; break; }
      }
  }
  \<close>
  \<open>balance_scan cs i balance\<close> runs it on the rest \<open>cs\<close> of the string from index
  \<open>i\<close>; \<open>None\<close> is \<^verbatim>\<open>end === -1\<close>.
\<close>

fun balance_scan :: "string \<Rightarrow> nat \<Rightarrow> int \<Rightarrow> nat option" where
  "balance_scan [] i balance = None"
| "balance_scan (c # cs) i balance =
     (if c = CHR ''{'' then balance_scan cs (Suc i) (balance + 1)
      else if c = CHR ''}'' then
        (if balance - 1 = 0 then Some i
         else balance_scan cs (Suc i) (balance - 1))
      else balance_scan cs (Suc i) balance)"

text \<open>\<^verbatim>\<open>text.replace(/```json/g, '').replace(/```/g, '').trim()\<close>\<close>

definition strip_markdown :: "string \<Rightarrow> string" where
  "strip_markdown text = trim (remove_all ''```'' (remove_all ''```json'' text))"

text \<open>
  The function itself. \<^verbatim>\<open>console.error\<close> in the last handler only prints and is left
  out.
\<close>

definition parseModelJSON_js :: "decoder \<Rightarrow> string \<Rightarrow> json js" where
  "parseModelJSON_js jp text =
     (if text = [] then js_return JNull
      else
        let clean = strip_markdown text in
        case indexOf clean CHR ''{'' of
          None \<Rightarrow> js_return JNull
        | Some start \<Rightarrow>
            let clean = substring_from clean start in
            try_catch (JSON_parse_call jp clean) (\<lambda>e.
              case balance_scan clean 0 0 of
                Some end \<Rightarrow>
                  try_catch (JSON_parse_call jp (substring_to clean (end + 1))) (\<lambda>innerE.
                    case lastIndexOf clean CHR ''}'' of
                      Some lastBrace \<Rightarrow>
                        try_catch (JSON_parse_call jp (substring_to clean (lastBrace + 1)))
                          (\<lambda>finalE. js_return JNull)
                    | None \<Rightarrow> js_return JNull)
              | None \<Rightarrow> js_return JNull))"

text \<open>What the caller gets, and the decode attempts made on the way.\<close>

definition parseModelJSON :: "decoder \<Rightarrow> string \<Rightarrow> exn + json" where
  "parseModelJSON jp text = fst (parseModelJSON_js jp text [])"

definition decode_attempts :: "decoder \<Rightarrow> string \<Rightarrow> string list" where
  "decode_attempts jp text = snd (parseModelJSON_js jp text [])"

section \<open>A decoder and an encoder for JSON texts\<close>

text \<open>
  The properties of the parser are stated for every decoder. To run the parser on
  concrete replies, \<open>JSON_parse\<close> reads the JSON grammar with integer number literals
  and with \<^verbatim>\<open>u00XX\<close> escapes only; any other text, and a number with a fraction
  or an exponent, is answered with \<open>SyntaxError\<close>. An object is kept as the list of its
  members in the order of the text. The recursion is on a bound that starts above the
  length of the text.
\<close>

definition json_space :: "char \<Rightarrow> bool" where
  "json_space c = (c = CHR 0x20 \<or> c = CHR 0x09 \<or> c = CHR 0x0A \<or> c = CHR 0x0D)"

definition skip_ws :: "string \<Rightarrow> string" where
  "skip_ws s = dropWhile json_space s"

definition is_digit :: "char \<Rightarrow> bool" where
  "is_digit c = (48 \<le> (of_char c :: nat) \<and> (of_char c :: nat) \<le> 57)"

definition digit_val :: "char \<Rightarrow> nat" where
  "digit_val c = of_char c - 48"

definition digits_val :: "string \<Rightarrow> nat" where
  "digits_val ds = foldl (\<lambda>acc d. 10 * acc + digit_val d) 0 ds"

definition scan_nat :: "string \<Rightarrow> (nat \<times> string) option" where
  "scan_nat s =
     (let ds = takeWhile is_digit s; r = dropWhile is_digit s in
      if ds = [] then None
      else if hd ds = CHR ''0'' \<and> tl ds \<noteq> [] then None
      else if r \<noteq> [] \<and> (hd r = CHR ''.'' \<or> hd r = CHR ''e'' \<or> hd r = CHR ''E'') then None
      else Some (digits_val ds, r))"

definition scan_number :: "string \<Rightarrow> (json \<times> string) option" where
  "scan_number s =
     (case s of
        [] \<Rightarrow> None
      | c # cs \<Rightarrow>
          if c = CHR ''-'' then
            (case scan_nat cs of None \<Rightarrow> None | Some (n, r) \<Rightarrow> Some (JNumber (- int n), r))
          else
            (case scan_nat s of None \<Rightarrow> None | Some (n, r) \<Rightarrow> Some (JNumber (int n), r)))"

definition hex_val :: "char \<Rightarrow> nat option" where
  "hex_val c =
     (let n = (of_char c :: nat) in
      if 48 \<le> n \<and> n \<le> 57 then Some (n - 48)
      else if 97 \<le> n \<and> n \<le> 102 then Some (n - 87)
      else if 65 \<le> n \<and> n \<le> 70 then Some (n - 55)
      else None)"

definition unescape :: "char \<Rightarrow> char option" where
  "unescape d =
     (if d = CHR 0x22 then Some (CHR 0x22)
      else if d = CHR 0x5C then Some (CHR 0x5C)
      else if d = CHR ''/'' then Some (CHR ''/'')
      else if d = CHR ''b'' then Some (CHR 0x08)
      else if d = CHR ''f'' then Some (CHR 0x0C)
      else if d = CHR ''n'' then Some (CHR 0x0A)
      else if d = CHR ''r'' then Some (CHR 0x0D)
      else if d = CHR ''t'' then Some (CHR 0x09)
      else None)"

text \<open>The characters of a string literal after its opening quote, and the rest.\<close>

fun scan_string :: "string \<Rightarrow> (string \<times> string) option" where
  "scan_string [] = None"
| "scan_string [c] = (if c = CHR 0x22 then Some ([], []) else None)"
| "scan_string (c # d # cs) =
     (if c = CHR 0x22 then Some ([], d # cs)
      else if c = CHR 0x5C then
        (if d = CHR ''u'' then
           (case cs of
              h1 # h2 # h3 # h4 # r \<Rightarrow>
                (if h1 = CHR ''0'' \<and> h2 = CHR ''0'' then
                   (case (hex_val h3, hex_val h4) of
                      (Some a, Some b) \<Rightarrow>
                        (case scan_string r of
                           None \<Rightarrow> None
                         | Some (str, r') \<Rightarrow> Some (char_of (16 * a + b) # str, r'))
                    | _ \<Rightarrow> None)
                 else None)
            | _ \<Rightarrow> None)
         else
           (case unescape d of
              None \<Rightarrow> None
            | Some x \<Rightarrow>
                (case scan_string cs of
                   None \<Rightarrow> None
                 | Some (str, r) \<Rightarrow> Some (x # str, r))))
      else if (of_char c :: nat) < 32 then None
      else (case scan_string (d # cs) of
              None \<Rightarrow> None
            | Some (str, r) \<Rightarrow> Some (c # str, r)))"

fun scan_value :: "nat \<Rightarrow> string \<Rightarrow> (json \<times> string) option"
  and scan_elements :: "nat \<Rightarrow> string \<Rightarrow> (json list \<times> string) option"
  and scan_members :: "nat \<Rightarrow> string \<Rightarrow> ((string \<times> json) list \<times> string) option"
where
  "scan_value 0 s = None"
| "scan_value (Suc n) s =
     (case skip_ws s of
        [] \<Rightarrow> None
      | c # cs \<Rightarrow>
          if c = CHR ''{'' then
            (case skip_ws cs of
               [] \<Rightarrow> None
             | d # ds \<Rightarrow>
                 if d = CHR ''}'' then Some (JObject [], ds)
                 else (case scan_members n (d # ds) of
                         None \<Rightarrow> None
                       | Some (ms, r) \<Rightarrow> Some (JObject ms, r)))
          else if c = CHR ''['' then
            (case skip_ws cs of
               [] \<Rightarrow> None
             | d # ds \<Rightarrow>
                 if d = CHR '']'' then Some (JArray [], ds)
                 else (case scan_elements n (d # ds) of
                         None \<Rightarrow> None
                       | Some (vs, r) \<Rightarrow> Some (JArray vs, r)))
          else if c = CHR 0x22 then
            (case scan_string cs of
               None \<Rightarrow> None
             | Some (str, r) \<Rightarrow> Some (JString str, r))
          else if take 4 (c # cs) = ''true'' then Some (JBool True, drop 4 (c # cs))
          else if take 5 (c # cs) = ''false'' then Some (JBool False, drop 5 (c # cs))
          else if take 4 (c # cs) = ''null'' then Some (JNull, drop 4 (c # cs))
          else scan_number (c # cs))"
| "scan_elements 0 s = None"
| "scan_elements (Suc n) s =
     (case scan_value n s of
        None \<Rightarrow> None
      | Some (v, r) \<Rightarrow>
          (case skip_ws r of
             [] \<Rightarrow> None
           | c # cs \<Rightarrow>
               if c = CHR '','' then
                 (case scan_elements n cs of
                    None \<Rightarrow> None
                  | Some (vs, r') \<Rightarrow> Some (v # vs, r'))
               else if c = CHR '']'' then Some ([v], cs)
               else None))"
| "scan_members 0 s = None"
| "scan_members (Suc n) s =
     (case skip_ws s of
        [] \<Rightarrow> None
      | q # qs \<Rightarrow>
          if q \<noteq> CHR 0x22 then None
          else
            (case scan_string qs of
               None \<Rightarrow> None
             | Some (k, r) \<Rightarrow>
                 (case skip_ws r of
                    [] \<Rightarrow> None
                  | c # cs \<Rightarrow>
                      if c \<noteq> CHR '':'' then None
                      else
                        (case scan_value n cs of
                           None \<Rightarrow> None
                         | Some (v, r') \<Rightarrow>
                             (case skip_ws r' of
                                [] \<Rightarrow> None
                              | e # es \<Rightarrow>
                                  if e = CHR '','' then
                                    (case scan_members n es of
                                       None \<Rightarrow> None
                                     | Some (ms, r'') \<Rightarrow> Some ((k, v) # ms, r''))
                                  else if e = CHR ''}'' then Some ([(k, v)], es)
                                  else None)))))"

definition JSON_parse :: decoder where
  "JSON_parse s =
     (case scan_value (Suc (length s)) s of
        None \<Rightarrow> Inl SyntaxError
      | Some (v, r) \<Rightarrow> if skip_ws r = [] then Inr v else Inl SyntaxError)"

text \<open>\<^verbatim>\<open>JSON.stringify(v)\<close> without indentation, on the same fragment.\<close>

fun nat_digits :: "nat \<Rightarrow> string" where
  "nat_digits n =
     (if n < 10 then [char_of (48 + n)]
      else nat_digits (n div 10) @ [char_of (48 + n mod 10)])"

definition show_int :: "int \<Rightarrow> string" where
  "show_int i = (if i < 0 then CHR ''-'' # nat_digits (nat (- i)) else nat_digits (nat i))"

definition hex_digit :: "nat \<Rightarrow> char" where
  "hex_digit n = (if n < 10 then char_of (48 + n) else char_of (87 + n))"

definition escape_char :: "char \<Rightarrow> string" where
  "escape_char c =
     (if c = CHR 0x22 then [CHR 0x5C, CHR 0x22]
      else if c = CHR 0x5C then [CHR 0x5C, CHR 0x5C]
      else if c = CHR 0x08 then [CHR 0x5C, CHR ''b'']
      else if c = CHR 0x0C then [CHR 0x5C, CHR ''f'']
      else if c = CHR 0x0A then [CHR 0x5C, CHR ''n'']
      else if c = CHR 0x0D then [CHR 0x5C, CHR ''r'']
      else if c = CHR 0x09 then [CHR 0x5C, CHR ''t'']
      else if (of_char c :: nat) < 32 then
        [CHR 0x5C, CHR ''u'', CHR ''0'', CHR ''0'',
         hex_digit (of_char c div 16), hex_digit (of_char c mod 16)]
      else [c])"

definition quote :: "string \<Rightarrow> string" where
  "quote s = CHR 0x22 # concat (map escape_char s) @ [CHR 0x22]"

fun join_commas :: "string list \<Rightarrow> string" where
  "join_commas [] = []"
| "join_commas [x] = x"
| "join_commas (x # y # ys) = x @ CHR '','' # join_commas (y # ys)"

fun JSON_stringify :: "json \<Rightarrow> string" where
  "JSON_stringify JNull = ''null''"
| "JSON_stringify (JBool b) = (if b then ''true'' else ''false'')"
| "JSON_stringify (JNumber i) = show_int i"
| "JSON_stringify (JString s) = quote s"
| "JSON_stringify (JArray vs) = CHR ''['' # join_commas (map JSON_stringify vs) @ '']''"
| "JSON_stringify (JObject ms) =
     CHR ''{'' # join_commas (map (\<lambda>(k, v). quote k @ CHR '':'' # JSON_stringify v) ms) @ ''}''"

text \<open>\<open>contains s pat\<close>: the pattern occurs somewhere in the string.\<close>

fun contains :: "string \<Rightarrow> string \<Rightarrow> bool" where
  "contains [] pat = (pat = [])"
| "contains (c # cs) pat = (take (length pat) (c # cs) = pat \<or> contains cs pat)"

section \<open>Inbound audio: base64 and PCM decoding\<close>

text \<open>
  \<^verbatim>\<open>atob\<close> of the platform (forgiving base64 decoding): ASCII white space is dropped,
  one or two padding signs are dropped from a text whose length is a multiple of four, and
  a character outside the alphabet or a length that leaves one character over throws
  \<open>InvalidCharacterError\<close>. The handlers below take the function as a parameter.
\<close>

definition b64_value :: "char \<Rightarrow> nat option" where
  "b64_value c =
     (let n = (of_char c :: nat) in
      if 65 \<le> n \<and> n \<le> 90 then Some (n - 65)
      else if 97 \<le> n \<and> n \<le> 122 then Some (n - 71)
      else if 48 \<le> n \<and> n \<le> 57 then Some (n + 4)
      else if c = CHR ''+'' then Some 62
      else if c = CHR ''/'' then Some 63
      else None)"

fun b64_groups :: "nat list \<Rightarrow> nat list" where
  "b64_groups (a # b # c # d # r) =
     (a * 4 + b div 16) # ((b mod 16) * 16 + c div 4) # ((c mod 4) * 64 + d) # b64_groups r"
| "b64_groups [a, b, c] = [a * 4 + b div 16, (b mod 16) * 16 + c div 4]"
| "b64_groups [a, b] = [a * 4 + b div 16]"
| "b64_groups r = []"

definition ascii_space :: "char \<Rightarrow> bool" where
  "ascii_space c =
     (c = CHR 0x09 \<or> c = CHR 0x0A \<or> c = CHR 0x0C \<or> c = CHR 0x0D \<or> c = CHR 0x20)"

definition strip_padding :: "string \<Rightarrow> string" where
  "strip_padding s =
     (if length s mod 4 = 0 \<and> s \<noteq> [] \<and> last s = CHR ''='' then
        (if butlast s \<noteq> [] \<and> last (butlast s) = CHR ''='' then butlast (butlast s)
         else butlast s)
      else s)"

definition atob :: "string \<Rightarrow> exn + string" where
  "atob s =
     (let data = strip_padding (filter (\<lambda>c. \<not> ascii_space c) s) in
      case those (map b64_value data) of
        None \<Rightarrow> Inl InvalidCharacterError
      | Some vs \<Rightarrow>
          if length vs mod 4 = 1 then Inl InvalidCharacterError
          else Inr (map char_of (b64_groups vs)))"

text \<open>
  \<^verbatim>\<open>
  function decode(base64: string) {
    const binaryString = atob(base64);
    const len = binaryString.length;
    const bytes = new Uint8Array(len);
    for (let i = 0; i < len; i++) { bytes[i] = binaryString.charCodeAt(i); }
    return bytes;
  }
  \<close>
\<close>

definition decode :: "(string \<Rightarrow> exn + string) \<Rightarrow> string \<Rightarrow> exn + nat list" where
  "decode atob_fn base64 =
     (case atob_fn base64 of
        Inl e \<Rightarrow> Inl e
      | Inr binaryString \<Rightarrow> Inr (map of_char binaryString))"

text \<open>
  An \<^verbatim>\<open>AudioBuffer\<close>: its length in sample frames, its rate and the samples of each
  channel; \<^verbatim>\<open>buffer.duration\<close> is the length divided by the rate. Times and samples
  are real numbers here.
\<close>

record audio_buffer =
  numberOfChannels :: nat
  frames :: nat
  sampleRate :: nat
  channelData :: "real list list"

definition duration :: "audio_buffer \<Rightarrow> real" where
  "duration b = real (frames b) / real (sampleRate b)"

text \<open>\<^verbatim>\<open>new Int16Array(data.buffer)\<close>: pairs of bytes, low byte first, as signed values.\<close>

definition to_int16 :: "nat \<Rightarrow> nat \<Rightarrow> int" where
  "to_int16 lo hi =
     (let u = lo + 256 * hi in if 32768 \<le> u then int u - 65536 else int u)"

fun int16_array :: "nat list \<Rightarrow> int list" where
  "int16_array (lo # hi # r) = to_int16 lo hi # int16_array r"
| "int16_array r = []"

text \<open>
  \<^verbatim>\<open>
  async function decodeAudioData(data, ctx, sampleRate, numChannels) {
    const dataInt16 = new Int16Array(data.buffer);
    const frameCount = dataInt16.length / numChannels;
    const buffer = ctx.createBuffer(numChannels, frameCount, sampleRate);
    for (let channel = 0; channel < numChannels; channel++) {
      const channelData = buffer.getChannelData(channel);
      for (let i = 0; i < frameCount; i++) {
        channelData[i] = dataInt16[i * numChannels + channel] / 32768.0;
      }
    }
    return buffer;
  }
  \<close>
  \<^verbatim>\<open>Int16Array\<close> throws \<open>RangeError\<close> on an odd number of bytes, and
  \<^verbatim>\<open>createBuffer\<close> throws \<open>NotSupportedError\<close> on a length or a channel count of zero.
\<close>

definition decodeAudioData :: "nat list \<Rightarrow> nat \<Rightarrow> nat \<Rightarrow> exn + audio_buffer" where
  "decodeAudioData data rate numChannels =
     (if odd (length data) then Inl RangeError
      else
        let dataInt16 = int16_array data;
            frameCount = length dataInt16 div numChannels
        in if numChannels = 0 \<or> frameCount = 0 then Inl NotSupportedError
           else Inr \<lparr> numberOfChannels = numChannels, frames = frameCount, sampleRate = rate,
                      channelData =
                        map (\<lambda>channel.
                               map (\<lambda>i. real_of_int (dataInt16 ! (i * numChannels + channel)) / 32768)
                                 [0..<frameCount])
                          [0..<numChannels] \<rparr>)"

text \<open>\<^verbatim>\<open>await decodeAudioData(decode(base64Audio), this.outputAudioContext, 24000, 1)\<close>\<close>

definition inbound_buffer :: "(string \<Rightarrow> exn + string) \<Rightarrow> string \<Rightarrow> exn + audio_buffer" where
  "inbound_buffer atob_fn base64Audio =
     (case decode atob_fn base64Audio of
        Inl e \<Rightarrow> Inl e
      | Inr data \<Rightarrow> decodeAudioData data 24000 1)"

section \<open>The voice session \<^verbatim>\<open>LiveClient\<close>\<close>

subsection \<open>Platform calls\<close>

text \<open>
  What a method does to the browser and to the network session is the list of the
  platform calls it makes, in order. A call that throws is not in the list.
  \<open>SourceStart t d\<close> is \<^verbatim>\<open>source.start(t)\<close> for a buffer of duration \<open>d\<close>;
  \<open>TrackStop i\<close> and \<open>SourceStop i\<close> are \<^verbatim>\<open>stop()\<close> on the \<open>i\<close>-th track of the stream
  and on the \<open>i\<close>-th element of \<^verbatim>\<open>this.sources\<close>. The type \<open>'b\<close> is the payload
  \<^verbatim>\<open>createBlob\<close> makes of a captured frame.
\<close>

datatype ctx_id = InputContext | OutputContext

datatype 'b call =
    NewAudioContext nat
  | GetUserMedia
  | CreateMediaStreamSource
  | CreateScriptProcessor
  | LiveConnect
  | SendRealtimeInput 'b
  | SourceStart real real
  | OnTranscription string string
  | SessionClose
  | TrackStop nat
  | ContextClose ctx_id
  | SourceStop nat

fun is_release :: "'b call \<Rightarrow> bool" where
  "is_release SessionClose = True"
| "is_release (TrackStop i) = True"
| "is_release (ContextClose c) = True"
| "is_release (SourceStop i) = True"
| "is_release c = False"

subsection \<open>The object\<close>

text \<open>
  The promise \<^verbatim>\<open>ai.live.connect\<close> returns: pending, with the payloads of the
  \<^verbatim>\<open>then\<close> reactions registered on it so far, or fulfilled with the session, or rejected.
\<close>

datatype 'b promise = Pending "'b list" | Fulfilled | Rejected exn

record source_node =
  buffer :: audio_buffer
  startTime :: real

text \<open>
  The fields of the class. An audio context is held as its sample rate, the media
  stream as the number of its tracks, a node as whether the field is set.
  \<^verbatim>\<open>
  private sessionPromise: Promise<any> | null = null;
  private inputAudioContext: AudioContext | null = null;
  private outputAudioContext: AudioContext | null = null;
  private nextStartTime = 0;
  private sources = new Set<AudioBufferSourceNode>();
  private stream: MediaStream | null = null;
  private processor: ScriptProcessorNode | null = null;
  private inputSource: MediaStreamAudioSourceNode | null = null;
  \<close>
\<close>

record 'b LiveClient =
  sessionPromise :: "'b promise option"
  inputAudioContext :: "nat option"
  outputAudioContext :: "nat option"
  nextStartTime :: real
  sources :: "source_node list"
  stream :: "nat option"
  processor :: bool
  inputSource :: bool

definition new_LiveClient :: "'b LiveClient" where
  "new_LiveClient =
     \<lparr> sessionPromise = None, inputAudioContext = None, outputAudioContext = None,
       nextStartTime = 0, sources = [], stream = None, processor = False,
       inputSource = False \<rparr>"

subsection \<open>The platform\<close>

text \<open>
  What the platform answers: whether a call throws, how a pending session promise
  settles (\<open>None\<close>: the network stream opens; \<open>Some e\<close>: it cannot be opened), and how
  many tracks the microphone stream has. A promise that never settles is not modelled.
\<close>

record 'b platform =
  throws :: "'b call \<Rightarrow> exn option"
  settles :: "exn option"
  microphone_tracks :: nat

text \<open>
  A statement of a method: it may throw, it changes the object and it makes platform
  calls. Statements in sequence stop at the first that throws. Each \<^verbatim>\<open>await\<close> is
  taken in one step with the statements around it.
\<close>

type_synonym 'b act = "'b LiveClient \<Rightarrow> exn option \<times> 'b LiveClient \<times> 'b call list"

definition perform :: "'b platform \<Rightarrow> 'b call \<Rightarrow> 'b act" where
  "perform env c st =
     (case throws env c of Some e \<Rightarrow> (Some e, st, []) | None \<Rightarrow> (None, st, [c]))"

definition assign :: "('b LiveClient \<Rightarrow> 'b LiveClient) \<Rightarrow> 'b act" where
  "assign f st = (None, f st, [])"

fun sequence :: "'b act list \<Rightarrow> 'b act" where
  "sequence [] st = (None, st, [])"
| "sequence (a # as) st =
     (case a st of
        (Some e, st', cs) \<Rightarrow> (Some e, st', cs)
      | (None, st', cs) \<Rightarrow>
          (case sequence as st' of (r, st'', cs') \<Rightarrow> (r, st'', cs @ cs')))"

text \<open>
  A promise settles: the reactions registered on a pending promise run in the order
  of their registration when it is fulfilled, each sending its payload, and none runs
  when it is rejected.
\<close>

definition settle :: "'b platform \<Rightarrow> 'b promise \<Rightarrow> 'b promise \<times> 'b call list" where
  "settle env p =
     (case p of
        Pending reactions \<Rightarrow>
          (case settles env of
             None \<Rightarrow> (Fulfilled, map SendRealtimeInput reactions)
           | Some e \<Rightarrow> (Rejected e, []))
      | Fulfilled \<Rightarrow> (Fulfilled, [])
      | Rejected e \<Rightarrow> (Rejected e, []))"

text \<open>The event of the session promise settling, and \<^verbatim>\<open>await this.sessionPromise\<close>.\<close>

definition session_settles :: "'b platform \<Rightarrow> 'b act" where
  "session_settles env st =
     (case sessionPromise st of
        None \<Rightarrow> (None, st, [])
      | Some p \<Rightarrow>
          (case settle env p of (p', cs) \<Rightarrow> (None, st\<lparr>sessionPromise := Some p'\<rparr>, cs)))"

definition await_session :: "'b platform \<Rightarrow> 'b promise \<Rightarrow> 'b act" where
  "await_session env p st =
     (case settle env p of
        (Rejected e, cs) \<Rightarrow> (Some e, st\<lparr>sessionPromise := Some (Rejected e)\<rparr>, cs)
      | (p', cs) \<Rightarrow> (None, st\<lparr>sessionPromise := Some p'\<rparr>, cs))"

subsection \<open>\<^verbatim>\<open>connect\<close>\<close>

text \<open>
  \<^verbatim>\<open>
  async connect() {
    this.inputAudioContext = new AudioContext({sampleRate: 16000});
    this.outputAudioContext = new AudioContext({sampleRate: 24000});
    this.stream = await navigator.mediaDevices.getUserMedia({ audio: true });
    this.inputSource = this.inputAudioContext.createMediaStreamSource(this.stream);
    this.processor = this.inputAudioContext.createScriptProcessor(4096, 1, 1);
    this.processor.onaudioprocess = (e) => { ... };
    this.inputSource.connect(this.processor);
    this.processor.connect(this.inputAudioContext.destination);
    this.sessionPromise = ai.live.connect({ ... });
  }
  \<close>
  \<^verbatim>\<open>ai.live.connect\<close> returns its promise at once: whether the network stream opens
  is known when the promise settles.
\<close>

definition connect :: "'b platform \<Rightarrow> 'b act" where
  "connect env =
     sequence
       [perform env (NewAudioContext 16000),
        assign (\<lambda>st. st\<lparr>inputAudioContext := Some 16000\<rparr>),
        perform env (NewAudioContext 24000),
        assign (\<lambda>st. st\<lparr>outputAudioContext := Some 24000\<rparr>),
        perform env GetUserMedia,
        assign (\<lambda>st. st\<lparr>stream := Some (microphone_tracks env)\<rparr>),
        perform env CreateMediaStreamSource,
        assign (\<lambda>st. st\<lparr>inputSource := True\<rparr>),
        perform env CreateScriptProcessor,
        assign (\<lambda>st. st\<lparr>processor := True\<rparr>),
        (\<lambda>st. (None, st\<lparr>sessionPromise := Some (Pending [])\<rparr>, [LiveConnect]))]"

subsection \<open>The capture callback\<close>

text \<open>
  \<^verbatim>\<open>
  this.processor.onaudioprocess = (e) => {
      const inputData = e.inputBuffer.getChannelData(0);
      const pcmBlob = createBlob(inputData);
      if (this.sessionPromise) {
          this.sessionPromise.then(session => {
              session.sendRealtimeInput({ media: pcmBlob });
          });
      }
  };
  \<close>
  \<^verbatim>\<open>then\<close> on a pending promise registers the reaction; on a fulfilled promise the
  reaction runs as soon as the callback has returned; on a rejected promise it never
  runs.
\<close>

definition onaudioprocess :: "('f \<Rightarrow> 'b) \<Rightarrow> 'f \<Rightarrow> 'b act" where
  "onaudioprocess createBlob inputData st =
     (let pcmBlob = createBlob inputData in
      case sessionPromise st of
        None \<Rightarrow> (None, st, [])
      | Some p \<Rightarrow>
          (case p of
             Pending reactions \<Rightarrow>
               (None, st\<lparr>sessionPromise := Some (Pending (reactions @ [pcmBlob]))\<rparr>, [])
           | Fulfilled \<Rightarrow> (None, st, [SendRealtimeInput pcmBlob])
           | Rejected e \<Rightarrow> (None, st, [])))"

subsection \<open>The message handler\<close>

text \<open>
  An inbound message, as far as the handler reads it:
  \<^verbatim>\<open>message.serverContent?.modelTurn?.parts?.[0]?.inlineData?.data\<close>, and the two
  transcription objects, each with its \<^verbatim>\<open>text\<close> when it has one.
\<close>

record message =
  audio :: "string option"
  inputTranscription :: "string option option"
  outputTranscription :: "string option option"

text \<open>
  \<^verbatim>\<open>
  const base64Audio = message.serverContent?.modelTurn?.parts?.[0]?.inlineData?.data;
  if (base64Audio && this.outputAudioContext) {
     this.nextStartTime = Math.max(this.nextStartTime, this.outputAudioContext.currentTime);
     const audioBuffer = await decodeAudioData(decode(base64Audio), this.outputAudioContext, 24000, 1);
     const source = this.outputAudioContext.createBufferSource();
     source.buffer = audioBuffer;
     source.connect(this.outputAudioContext.destination);
     source.addEventListener('ended', () => { this.sources.delete(source); });
     source.start(this.nextStartTime);
     this.nextStartTime += audioBuffer.duration;
     this.sources.add(source);
  }
  \<close>
  \<open>currentTime\<close> is the reading of the playback clock when the handler runs. The
  listener for \<^verbatim>\<open>ended\<close>, which takes a source that has played out of the set, is
  left out: no property below reads the set after a buffer has ended.
\<close>

definition handle_audio :: "(string \<Rightarrow> exn + string) \<Rightarrow> real \<Rightarrow> message \<Rightarrow> 'b act" where
  "handle_audio atob_fn currentTime msg st =
     (case audio msg of
        None \<Rightarrow> (None, st, [])
      | Some base64Audio \<Rightarrow>
          if base64Audio = [] \<or> outputAudioContext st = None then (None, st, [])
          else
            let st1 = st\<lparr>nextStartTime := max (nextStartTime st) currentTime\<rparr> in
            (case inbound_buffer atob_fn base64Audio of
               Inl e \<Rightarrow> (Some e, st1, [])
             | Inr audioBuffer \<Rightarrow>
                 (None,
                  st1\<lparr>nextStartTime := nextStartTime st1 + duration audioBuffer,
                      sources := sources st1 @
                        [\<lparr>buffer = audioBuffer, startTime = nextStartTime st1\<rparr>]\<rparr>,
                  [SourceStart (nextStartTime st1) (duration audioBuffer)])))"

text \<open>
  \<^verbatim>\<open>
  let inText = '';
  let outText = '';
  if (message.serverContent?.inputTranscription) {
      inText = message.serverContent.inputTranscription.text || '';
  }
  if (message.serverContent?.outputTranscription) {
      outText = message.serverContent.outputTranscription.text || '';
  }
  if (inText || outText) {
      this.onTranscription(inText, outText);
  }
  \<close>
\<close>

definition transcript_text :: "string option option \<Rightarrow> string" where
  "transcript_text tr =
     (case tr of
        None \<Rightarrow> []
      | Some t \<Rightarrow> (case t of None \<Rightarrow> [] | Some s \<Rightarrow> s))"

definition handle_transcription :: "message \<Rightarrow> 'b act" where
  "handle_transcription msg st =
     (let inText = transcript_text (inputTranscription msg);
          outText = transcript_text (outputTranscription msg)
      in if inText \<noteq> [] \<or> outText \<noteq> [] then (None, st, [OnTranscription inText outText])
         else (None, st, []))"

definition onmessage :: "(string \<Rightarrow> exn + string) \<Rightarrow> real \<Rightarrow> message \<Rightarrow> 'b act" where
  "onmessage atob_fn currentTime msg =
     sequence [handle_audio atob_fn currentTime msg, handle_transcription msg]"

text \<open>
  The messages of a session in their order of arrival, each with the clock reading at
  its arrival. A handler that throws ends alone; the next message is handled from the
  state it left.
\<close>

fun receive_all :: "(string \<Rightarrow> exn + string) \<Rightarrow> (real \<times> message) list \<Rightarrow>
    'b LiveClient \<Rightarrow> 'b LiveClient \<times> 'b call list" where
  "receive_all atob_fn [] st = (st, [])"
| "receive_all atob_fn ((t, msg) # evs) st =
     (case onmessage atob_fn t msg st of
        (r, st', cs) \<Rightarrow>
          (case receive_all atob_fn evs st' of (st'', cs') \<Rightarrow> (st'', cs @ cs')))"

subsection \<open>\<^verbatim>\<open>disconnect\<close>\<close>

text \<open>
  \<^verbatim>\<open>
  async disconnect() {
     if (this.sessionPromise) {
         const session = await this.sessionPromise;
         session.close();
         this.sessionPromise = null;
     }
     if (this.stream) {
         this.stream.getTracks().forEach(track => track.stop());
     }
     if (this.inputAudioContext) this.inputAudioContext.close();
     if (this.outputAudioContext) this.outputAudioContext.close();
     this.sources.forEach(s => s.stop());
     this.sources.clear();
  }
  \<close>
\<close>

definition close_session :: "'b platform \<Rightarrow> 'b act" where
  "close_session env st =
     (case sessionPromise st of
        None \<Rightarrow> (None, st, [])
      | Some p \<Rightarrow>
          sequence
            [await_session env p,
             perform env SessionClose,
             assign (\<lambda>s. s\<lparr>sessionPromise := None\<rparr>)] st)"

definition stop_tracks :: "'b platform \<Rightarrow> 'b act" where
  "stop_tracks env st =
     (case stream st of
        None \<Rightarrow> (None, st, [])
      | Some n \<Rightarrow> sequence (map (\<lambda>i. perform env (TrackStop i)) [0..<n]) st)"

definition close_context :: "'b platform \<Rightarrow> ctx_id \<Rightarrow> nat option \<Rightarrow> 'b act" where
  "close_context env c field st =
     (case field of
        None \<Rightarrow> (None, st, [])
      | Some ctx \<Rightarrow> perform env (ContextClose c) st)"

definition stop_sources :: "'b platform \<Rightarrow> 'b act" where
  "stop_sources env st =
     sequence (map (\<lambda>i. perform env (SourceStop i)) [0..<length (sources st)]) st"

definition disconnect :: "'b platform \<Rightarrow> 'b act" where
  "disconnect env =
     sequence
       [close_session env,
        stop_tracks env,
        (\<lambda>st. close_context env InputContext (inputAudioContext st) st),
        (\<lambda>st. close_context env OutputContext (outputAudioContext st) st),
        stop_sources env,
        assign (\<lambda>st. st\<lparr>sources := []\<rparr>)]"

section \<open>Observations on the platform calls\<close>

text \<open>The buffers started, as (start time, duration), and the transcription callbacks.\<close>

fun source_starts :: "'b call list \<Rightarrow> (real \<times> real) list" where
  "source_starts [] = []"
| "source_starts (SourceStart t d # cs) = (t, d) # source_starts cs"
| "source_starts (c # cs) = source_starts cs"

fun transcription_calls :: "'b call list \<Rightarrow> (string \<times> string) list" where
  "transcription_calls [] = []"
| "transcription_calls (OnTranscription inText outText # cs) =
     (inText, outText) # transcription_calls cs"
| "transcription_calls (c # cs) = transcription_calls cs"

text \<open>
  A timeline of buffers that starts at or after \<open>c\<close> and in which every buffer starts at
  or after the end of the one before it.
\<close>

fun chained :: "real \<Rightarrow> (real \<times> real) list \<Rightarrow> bool" where
  "chained c [] = True"
| "chained c ((s, d) # r) = (c \<le> s \<and> 0 \<le> d \<and> chained (s + d) r)"

text \<open>
  The release calls of a \<^verbatim>\<open>disconnect\<close> none of whose steps fails, and the object it
  leaves.
\<close>

definition release_calls :: "'b platform \<Rightarrow> 'b LiveClient \<Rightarrow> 'b call list" where
  "release_calls env st =
     (case sessionPromise st of None \<Rightarrow> [] | Some p \<Rightarrow> snd (settle env p) @ [SessionClose])
     @ map TrackStop [0..<(case stream st of None \<Rightarrow> 0 | Some n \<Rightarrow> n)]
     @ (case inputAudioContext st of None \<Rightarrow> [] | Some c \<Rightarrow> [ContextClose InputContext])
     @ (case outputAudioContext st of None \<Rightarrow> [] | Some c \<Rightarrow> [ContextClose OutputContext])
     @ map SourceStop [0..<length (sources st)]"

definition disconnected :: "'b LiveClient \<Rightarrow> 'b LiveClient" where
  "disconnected st = st\<lparr>sessionPromise := None, sources := []\<rparr>"

section \<open>Sample inputs\<close>

text \<open>A platform on which nothing fails, and one that denies the microphone.\<close>

definition quiet :: "nat platform" where
  "quiet = \<lparr> throws = (\<lambda>c. None), settles = None, microphone_tracks = 1 \<rparr>"

definition microphone_denied :: "nat platform" where
  "microphone_denied =
     \<lparr> throws = (\<lambda>c. if c = GetUserMedia then Some NotAllowedError else None),
       settles = None, microphone_tracks = 1 \<rparr>"

text \<open>
  The object after \<^verbatim>\<open>connect\<close> on the quiet platform, the network stream not yet open;
  the same after the network stream could not be opened; the object after
  \<^verbatim>\<open>connect\<close> was refused the microphone.
\<close>

definition connected :: "nat LiveClient" where
  "connected =
     \<lparr> sessionPromise = Some (Pending []), inputAudioContext = Some 16000,
       outputAudioContext = Some 24000, nextStartTime = 0, sources = [], stream = Some 1,
       processor = True, inputSource = True \<rparr>"

definition session_failed :: "nat LiveClient" where
  "session_failed = connected\<lparr>sessionPromise := Some (Rejected NetworkError)\<rparr>"

definition half_connected :: "nat LiveClient" where
  "half_connected =
     new_LiveClient\<lparr>inputAudioContext := Some 16000, outputAudioContext := Some 24000\<rparr>"

text \<open>
  Messages: three silent sample frames with a transcript, an audio part that is not
  base64 with a transcript, and a transcription object without text.
\<close>

definition chunk_message :: message where
  "chunk_message =
     \<lparr> audio = Some ''AAAAAAAA'', inputTranscription = None,
       outputTranscription = Some (Some ''ok'') \<rparr>"

definition silence :: audio_buffer where
  "silence = \<lparr> numberOfChannels = 1, frames = 3, sampleRate = 24000, channelData = [[0, 0, 0]] \<rparr>"

definition bad_audio_message :: message where
  "bad_audio_message =
     \<lparr> audio = Some ''!'', inputTranscription = Some (Some ''hi''), outputTranscription = None \<rparr>"

definition empty_transcript_message :: message where
  "empty_transcript_message =
     \<lparr> audio = None, inputTranscription = Some None, outputTranscription = None \<rparr>"

text \<open>
  Replies of the model: an object whose key holds an opening brace, followed by prose;
  an object whose string holds a closing brace, followed by prose; a fenced object
  between two lines of prose, and the value it encodes.
\<close>

definition dq :: string where
  "dq = [CHR 0x22]"

definition reply_open_in_string :: string where
  "reply_open_in_string = ''{'' @ dq @ ''{'' @ dq @ '':1} x''"

definition reply_close_in_string :: string where
  "reply_close_in_string = ''{'' @ dq @ ''a'' @ dq @ '':'' @ dq @ ''}'' @ dq @ ''} x''"

definition reply_fenced :: string where
  "reply_fenced =
     ''Sure! Here is the JSON:'' @ [CHR 0x0A] @ ''```json'' @ [CHR 0x0A]
     @ ''{'' @ dq @ ''score'' @ dq @ '': 87, '' @ dq @ ''unused'' @ dq @ '': ['' @ dq @ ''milk'' @ dq
     @ ''], '' @ dq @ ''explanation'' @ dq @ '': '' @ dq @ ''ok'' @ dq @ ''}''
     @ [CHR 0x0A] @ ''```'' @ [CHR 0x0A] @ ''Let me know if you need more.''"

definition waste_score :: json where
  "waste_score =
     JObject [(''score'', JNumber 87), (''unused'', JArray [JString ''milk'']),
              (''explanation'', JString ''ok'')]"

chapter \<open>Properties\<close>

section \<open>The parser\<close>

subsection \<open>Auxiliary facts\<close>

lemma try_catch_returns:
  assumes "\<And>e calls. \<exists>v calls'. h e calls = (Inr v, calls')"
  shows "\<exists>v calls'. try_catch m h calls = (Inr v, calls')"
proof (cases "m calls")
  case (Pair r calls')
  show ?thesis
  proof (cases r)
    case (Inl e)
    with Pair assms [of e calls'] show ?thesis by (simp add: try_catch_def)
  next
    case (Inr v)
    with Pair show ?thesis by (simp add: try_catch_def)
  qed
qed

lemma js_return_returns: "\<exists>v calls'. js_return x calls = (Inr v, calls')"
  by (simp add: js_return_def)

lemma parseModelJSON_js_returns:
  "\<exists>v calls'. parseModelJSON_js jp text calls = (Inr v, calls')"
  unfolding parseModelJSON_js_def Let_def
  by (auto split: option.split intro!: try_catch_returns js_return_returns)

lemma indexOf_None_iff: "indexOf s c = None \<longleftrightarrow> c \<notin> set s"
  by (induction s) (auto split: option.splits)

lemma indexOf_Some_drop: "indexOf s c = Some i \<Longrightarrow> drop i s = c # drop (Suc i) s"
  by (induction s arbitrary: i) (auto split: option.splits if_splits)

lemma lastIndexOf_None_iff: "lastIndexOf s c = None \<longleftrightarrow> c \<notin> set s"
  by (induction s) (auto split: option.splits)

lemma js_call_simps:
  "js_return v calls = (Inr v, calls)"
  "JSON_parse_call jp s calls = (jp s, calls @ [s])"
  by (simp_all add: js_return_def JSON_parse_call_def)

lemma try_catch_call:
  "try_catch (JSON_parse_call jp s) h calls =
     (case jp s of Inr v \<Rightarrow> (Inr v, calls @ [s]) | Inl e \<Rightarrow> h e (calls @ [s]))"
  by (simp add: try_catch_def JSON_parse_call_def split: sum.split)

text \<open>The fallback chain, once an opening brace has been found.\<close>

lemma parseModelJSON_js_unfold:
  assumes "text \<noteq> []" and "indexOf (strip_markdown text) CHR ''{'' = Some start"
    and "clean = substring_from (strip_markdown text) start"
  shows "parseModelJSON_js jp text calls =
     (case jp clean of
        Inr v \<Rightarrow> (Inr v, calls @ [clean])
      | Inl e \<Rightarrow>
         (case balance_scan clean 0 0 of
            None \<Rightarrow> (Inr JNull, calls @ [clean])
          | Some end \<Rightarrow>
             (case jp (substring_to clean (end + 1)) of
                Inr v \<Rightarrow> (Inr v, calls @ [clean, substring_to clean (end + 1)])
              | Inl innerE \<Rightarrow>
                 (case lastIndexOf clean CHR ''}'' of
                    None \<Rightarrow> (Inr JNull, calls @ [clean, substring_to clean (end + 1)])
                  | Some lastBrace \<Rightarrow>
                     (case jp (substring_to clean (lastBrace + 1)) of
                        Inr v \<Rightarrow>
                          (Inr v, calls @ [clean, substring_to clean (end + 1),
                                          substring_to clean (lastBrace + 1)])
                      | Inl finalE \<Rightarrow>
                          (Inr JNull, calls @ [clean, substring_to clean (end + 1),
                                              substring_to clean (lastBrace + 1)]))))))"
  using assms
  by (simp add: parseModelJSON_js_def Let_def try_catch_call js_call_simps
      split: sum.split option.split)

lemma balance_scan_close: "balance_scan s i b = Some e \<Longrightarrow> CHR ''}'' \<in> set s"
  by (induction s i b rule: balance_scan.induct) (auto split: if_splits)

lemma balance_scan_has_brace:
  assumes "balance_scan s i b = Some e"
  shows "\<exists>l. lastIndexOf s CHR ''}'' = Some l"
  using balance_scan_close [OF assms] lastIndexOf_None_iff [of s "CHR ''}''"]
  by (cases "lastIndexOf s CHR ''}''") auto

text \<open>A value other than \<^verbatim>\<open>null\<close> was decoded from a string that starts with a brace.\<close>

lemma parseModelJSON_js_result:
  assumes "parseModelJSON_js jp text [] = (Inr v, calls)"
  shows "v = JNull \<or> (\<exists>s. jp (CHR ''{'' # s) = Inr v)"
proof (cases "text = []")
  case True
  with assms show ?thesis by (simp add: parseModelJSON_js_def js_call_simps)
next
  case False
  show ?thesis
  proof (cases "indexOf (strip_markdown text) CHR ''{''")
    case None
    with False assms show ?thesis by (simp add: parseModelJSON_js_def js_call_simps Let_def)
  next
    case (Some start)
    define clean where "clean = substring_from (strip_markdown text) start"
    obtain r where r: "clean = CHR ''{'' # r"
      using indexOf_Some_drop [OF Some] by (simp add: clean_def substring_from_def)
    have t: "\<And>n. substring_to clean (n + 1) = CHR ''{'' # take n r"
      by (simp add: r substring_to_def)
    from assms show ?thesis
      unfolding parseModelJSON_js_unfold [OF False Some clean_def] t
      by (auto simp: r split: sum.splits option.splits)
  qed
qed

lemma remove_all_absent: "\<not> contains s pat \<Longrightarrow> remove_all pat s = s"
  by (induction pat s rule: remove_all.induct) auto

lemma contains_prefix: "contains s (p @ q) \<Longrightarrow> contains s p"
proof (induction s)
  case Nil
  then show ?case by simp
next
  case (Cons c cs)
  show ?case
  proof (cases "take (length (p @ q)) (c # cs) = p @ q")
    case True
    then have "take (length p) (take (length (p @ q)) (c # cs)) = p" by simp
    then have "take (length p) (c # cs) = p" by (simp add: min_def)
    then show ?thesis by simp
  next
    case False
    with Cons show ?thesis by simp
  qed
qed

lemma trim_braces: "s = CHR ''{'' # m @ ''}'' \<Longrightarrow> trim s = s"
  by (simp add: trim_def js_space_def)

lemma JSON_parse_object:
  assumes "JSON_parse (CHR ''{'' # s) = Inr v"
  shows "is_object v"
  using assms
  by (auto simp: JSON_parse_def skip_ws_def json_space_def
      split: option.splits list.splits if_splits)

subsection \<open>Totality\<close>

text \<open>
  C1. For every input string and whatever the decoder does on the strings it is given
  (return a value or throw), \<^verbatim>\<open>parseModelJSON\<close> returns a value (a decoded value or
  \<^verbatim>\<open>null\<close>): no exception reaches the caller.
\<close>

theorem C1_parser_never_throws: "\<exists>v. parseModelJSON jp text = Inr v"
proof -
  obtain v calls' where "parseModelJSON_js jp text [] = (Inr v, calls')"
    using parseModelJSON_js_returns by blast
  then show ?thesis by (simp add: parseModelJSON_def)
qed

subsection \<open>No opening brace\<close>

text \<open>
  C9. When the text, after the fence markers are removed and it is trimmed, holds no
  opening brace, \<^verbatim>\<open>parseModelJSON\<close> returns \<^verbatim>\<open>null\<close> and has called the decoder
  on nothing.
\<close>

theorem C9_no_brace_no_decode:
  "CHR ''{'' \<notin> set (strip_markdown text) \<Longrightarrow>
   parseModelJSON jp text = Inr JNull \<and> decode_attempts jp text = []"
  by (simp add: parseModelJSON_def decode_attempts_def parseModelJSON_js_def js_call_simps
      indexOf_None_iff [symmetric] Let_def)

text \<open>C9 on the reply \<^verbatim>\<open>I found nothing.\<close>\<close>

theorem C9_no_brace_witness:
  "CHR ''{'' \<notin> set (strip_markdown ''I found nothing.'')
   \<and> parseModelJSON JSON_parse ''I found nothing.'' = Inr JNull
   \<and> decode_attempts JSON_parse ''I found nothing.'' = []"
proof -
  have h: "CHR ''{'' \<notin> set (strip_markdown ''I found nothing.'')" by code_simp
  from C9_no_brace_no_decode [OF h, of JSON_parse] h show ?thesis by simp
qed

subsection \<open>The last resort\<close>

text \<open>
  C5, as the code has it. Let the decode of the text from its first opening brace fail.
  If the scan finds a balanced end and the decode up to it fails too, the parser decodes
  the text up to and including its last closing brace, and returns that value, or
  \<^verbatim>\<open>null\<close> when this decode fails as well. If the scan finds no balanced end (the
  depth never returns to zero), the parser returns \<^verbatim>\<open>null\<close> after the first attempt
  alone: there is no last-resort attempt.
\<close>

theorem C5_last_resort_after_balanced_end:
  assumes "text \<noteq> []" and "indexOf (strip_markdown text) CHR ''{'' = Some start"
    and "clean = substring_from (strip_markdown text) start"
    and "jp clean = Inl e"
  shows "case balance_scan clean 0 0 of
           None \<Rightarrow> decode_attempts jp text = [clean] \<and> parseModelJSON jp text = Inr JNull
         | Some end \<Rightarrow>
            (case jp (substring_to clean (end + 1)) of
               Inr v \<Rightarrow> decode_attempts jp text = [clean, substring_to clean (end + 1)]
                         \<and> parseModelJSON jp text = Inr v
             | Inl innerE \<Rightarrow>
                 (\<exists>lastBrace. lastIndexOf clean CHR ''}'' = Some lastBrace
                    \<and> decode_attempts jp text =
                         [clean, substring_to clean (end + 1), substring_to clean (lastBrace + 1)]
                    \<and> parseModelJSON jp text =
                         Inr (case jp (substring_to clean (lastBrace + 1)) of
                                Inr v \<Rightarrow> v | Inl finalE \<Rightarrow> JNull)))"
proof (cases "balance_scan clean 0 0")
  case None
  with assms show ?thesis
    by (simp add: parseModelJSON_def decode_attempts_def parseModelJSON_js_unfold [OF assms(1-3)])
next
  case (Some stop)
  from balance_scan_has_brace [OF Some] obtain l where l: "lastIndexOf clean CHR ''}'' = Some l" ..
  from Some l assms(4) show ?thesis
    by (simp add: parseModelJSON_def decode_attempts_def parseModelJSON_js_unfold [OF assms(1-3)]
        split: sum.split)
qed

text \<open>
  C5 on a reply whose string value holds a closing brace: the balanced end is inside the
  string, the decode up to it fails, and the decode up to the last brace gives the
  object.
\<close>

theorem C5_last_resort_witness:
  "reply_close_in_string \<noteq> []
   \<and> indexOf (strip_markdown reply_close_in_string) CHR ''{'' = Some 0
   \<and> reply_close_in_string = substring_from (strip_markdown reply_close_in_string) 0
   \<and> JSON_parse reply_close_in_string = Inl SyntaxError
   \<and> balance_scan reply_close_in_string 0 0 = Some 6
   \<and> JSON_parse (substring_to reply_close_in_string 7) = Inl SyntaxError
   \<and> lastIndexOf reply_close_in_string CHR ''}'' = Some 8
   \<and> decode_attempts JSON_parse reply_close_in_string =
        [reply_close_in_string, substring_to reply_close_in_string 7,
         substring_to reply_close_in_string 9]
   \<and> parseModelJSON JSON_parse reply_close_in_string = Inr (JObject [(''a'', JString ''}'')])"
proof -
  have h1: "reply_close_in_string \<noteq> []" by code_simp
  have h2: "indexOf (strip_markdown reply_close_in_string) CHR ''{'' = Some 0" by code_simp
  have h3: "reply_close_in_string = substring_from (strip_markdown reply_close_in_string) 0"
    by code_simp
  have h4: "JSON_parse reply_close_in_string = Inl SyntaxError" by code_simp
  have b: "balance_scan reply_close_in_string 0 0 = Some 6" by code_simp
  have j4: "JSON_parse (substring_to reply_close_in_string 7) = Inl SyntaxError" by code_simp
  have l: "lastIndexOf reply_close_in_string CHR ''}'' = Some 8" by code_simp
  have j5: "JSON_parse (substring_to reply_close_in_string 9) =
      Inr (JObject [(''a'', JString ''}'')])"
    by code_simp
  from C5_last_resort_after_balanced_end
    [of reply_close_in_string 0 reply_close_in_string JSON_parse SyntaxError, OF h1 h2 h3 h4]
    h1 h2 h3 h4 b j4 l j5
  show ?thesis by simp
qed

text \<open>
  C5 as worded fails on a reply whose key holds an opening brace: the decode of the
  whole text fails, the depth never returns to zero, a last closing brace exists and the
  text up to it decodes to an object, yet the parser makes the first attempt only and
  returns \<^verbatim>\<open>null\<close>.
\<close>

theorem C5_no_last_resort_counterexample:
  "JSON_parse reply_open_in_string = Inl SyntaxError
   \<and> balance_scan reply_open_in_string 0 0 = None
   \<and> lastIndexOf reply_open_in_string CHR ''}'' = Some 6
   \<and> JSON_parse (substring_to reply_open_in_string 7) = Inr (JObject [(''{'', JNumber 1)])
   \<and> decode_attempts JSON_parse reply_open_in_string = [reply_open_in_string]
   \<and> parseModelJSON JSON_parse reply_open_in_string = Inr JNull"
  by code_simp

subsection \<open>Clean input\<close>

text \<open>
  C6, as the code has it. For every JSON object whose encoding holds no run of three
  backquotes and is decoded by the decoder to the object itself, \<^verbatim>\<open>parseModelJSON\<close>
  of the encoding returns the object.
\<close>

theorem C6_clean_object_roundtrip:
  assumes "jp (JSON_stringify (JObject ms)) = Inr (JObject ms)"
    and "\<not> contains (JSON_stringify (JObject ms)) ''```''"
  shows "parseModelJSON jp (JSON_stringify (JObject ms)) = Inr (JObject ms)"
proof -
  define enc where "enc = JSON_stringify (JObject ms)"
  obtain m where t: "enc = CHR ''{'' # m @ ''}''" by (simp add: enc_def)
  have nf: "\<not> contains enc ''```''" using assms(2) by (simp add: enc_def)
  have "\<not> contains enc (''```'' @ ''json'')" using nf contains_prefix by blast
  then have r1: "remove_all ''```json'' enc = enc" by (simp add: remove_all_absent)
  have r2: "remove_all ''```'' enc = enc" using nf by (rule remove_all_absent)
  have s: "strip_markdown enc = enc" by (simp add: strip_markdown_def r1 r2 trim_braces [OF t])
  have i: "indexOf (strip_markdown enc) CHR ''{'' = Some 0" by (simp add: s) (simp add: t)
  have ne: "enc \<noteq> []" by (simp add: t)
  have c: "enc = substring_from (strip_markdown enc) 0" by (simp add: s substring_from_def)
  have "jp enc = Inr (JObject ms)" using assms(1) by (simp add: enc_def)
  then have "parseModelJSON jp enc = Inr (JObject ms)"
    by (simp add: parseModelJSON_def parseModelJSON_js_unfold [OF ne i c])
  then show ?thesis by (simp add: enc_def)
qed

text \<open>C6 on the object of the waste score.\<close>

theorem C6_clean_object_witness:
  "JSON_parse (JSON_stringify waste_score) = Inr waste_score
   \<and> \<not> contains (JSON_stringify waste_score) ''```''
   \<and> parseModelJSON JSON_parse (JSON_stringify waste_score) = Inr waste_score"
proof -
  have h1: "JSON_parse (JSON_stringify waste_score) = Inr waste_score" by code_simp
  have h2: "\<not> contains (JSON_stringify waste_score) ''```''" by code_simp
  from C6_clean_object_roundtrip
    [of JSON_parse, OF h1 [unfolded waste_score_def] h2 [unfolded waste_score_def]] h1 h2
  show ?thesis by (simp add: waste_score_def)
qed

text \<open>
  C6 as worded fails on a value that is not an object, and on an object with a string
  of three backquotes: the encoding of an array decodes to the array, but the parser
  returns \<^verbatim>\<open>null\<close> for it; the string of backquotes comes back empty.
\<close>

theorem C6_roundtrip_counterexample:
  "JSON_parse (JSON_stringify (JArray [JNumber 1])) = Inr (JArray [JNumber 1])
   \<and> parseModelJSON JSON_parse (JSON_stringify (JArray [JNumber 1])) = Inr JNull
   \<and> parseModelJSON JSON_parse (JSON_stringify (JObject [(''a'', JString ''```'')])) =
       Inr (JObject [(''a'', JString [])])"
  by code_simp

subsection \<open>The result is an object\<close>

text \<open>
  C10. Let the decoder answer a string that starts with an opening brace with objects
  only, as the JSON grammar has it. Then every value other than \<^verbatim>\<open>null\<close> that
  \<^verbatim>\<open>parseModelJSON\<close> returns is an object, whichever of the three decode attempts
  produced it.
\<close>

theorem C10_result_is_object:
  assumes "\<And>s v. jp (CHR ''{'' # s) = Inr v \<Longrightarrow> is_object v"
    and "parseModelJSON jp text = Inr v" and "v \<noteq> JNull"
  shows "is_object v"
proof -
  obtain calls where "parseModelJSON_js jp text [] = (Inr v, calls)"
    using assms(2) by (cases "parseModelJSON_js jp text []") (simp add: parseModelJSON_def)
  from parseModelJSON_js_result [OF this] assms(3) obtain s where "jp (CHR ''{'' # s) = Inr v"
    by blast
  then show ?thesis by (rule assms(1))
qed

text \<open>C10 on the fenced reply, with the decoder of this theory.\<close>

theorem C10_result_is_object_witness:
  "parseModelJSON JSON_parse reply_fenced = Inr waste_score \<and> waste_score \<noteq> JNull
   \<and> is_object waste_score"
proof -
  have r: "parseModelJSON JSON_parse reply_fenced = Inr waste_score" by code_simp
  have n: "waste_score \<noteq> JNull" by (simp add: waste_score_def)
  from C10_result_is_object [of JSON_parse, OF JSON_parse_object r n] r n show ?thesis by simp
qed

section \<open>The voice session\<close>

subsection \<open>Auxiliary facts\<close>

lemma perform_ok: "throws env c = None \<Longrightarrow> perform env c st = (None, st, [c])"
  by (simp add: perform_def)

lemma sequence_perform_all:
  assumes "\<And>c. throws env c = None"
  shows "sequence (map (\<lambda>i. perform env (f i)) xs) st = (None, st, map f xs)"
  by (induction xs) (simp_all add: perform_ok [OF assms])

lemma close_session_ok:
  assumes "\<And>c. throws env c = None"
    and "sessionPromise st = None
         \<or> (\<exists>p. sessionPromise st = Some p \<and> fst (settle env p) = Fulfilled)"
  shows "close_session env st =
     (None, st\<lparr>sessionPromise := None\<rparr>,
      (case sessionPromise st of None \<Rightarrow> [] | Some p \<Rightarrow> snd (settle env p) @ [SessionClose]))"
proof (cases "sessionPromise st")
  case None
  then show ?thesis by (simp add: close_session_def)
next
  case (Some p)
  with assms(2) have f: "fst (settle env p) = Fulfilled" by auto
  then obtain cs where s: "settle env p = (Fulfilled, cs)" by (cases "settle env p") auto
  show ?thesis
    by (simp add: close_session_def Some s await_session_def perform_ok [OF assms(1)] assign_def)
qed

lemma disconnect_ok:
  assumes "\<And>c. throws env c = None"
    and "sessionPromise st = None
         \<or> (\<exists>p. sessionPromise st = Some p \<and> fst (settle env p) = Fulfilled)"
  shows "disconnect env st = (None, disconnected st, release_calls env st)"
  unfolding disconnect_def
  by (simp add: close_session_ok [OF assms] stop_tracks_def close_context_def stop_sources_def
      sequence_perform_all [OF assms(1)] perform_ok [OF assms(1)] assign_def
      release_calls_def disconnected_def split: option.split)

lemma disconnect_new: "disconnect env new_LiveClient = (None, new_LiveClient, [])"
  by (simp add: disconnect_def close_session_def stop_tracks_def close_context_def
      stop_sources_def assign_def new_LiveClient_def)

lemma disconnect_rejected:
  assumes "sessionPromise st = Some (Rejected e)"
  shows "disconnect env st = (Some e, st, [])"
  using assms
  by (simp add: disconnect_def close_session_def await_session_def settle_def)

lemma connect_failure:
  assumes "connect env st = (Some e, st', cs)"
  shows "filter is_release cs = []
    \<and> sessionPromise st' = sessionPromise st
    \<and> sources st' = sources st
    \<and> (NewAudioContext 16000 \<in> set cs \<longrightarrow> inputAudioContext st' = Some 16000)
    \<and> (NewAudioContext 24000 \<in> set cs \<longrightarrow> outputAudioContext st' = Some 24000)
    \<and> (GetUserMedia \<in> set cs \<longrightarrow> stream st' = Some (microphone_tracks env))"
  using assms
  by (auto simp: connect_def perform_def assign_def split: option.splits)

lemma connect_ok:
  assumes "\<And>c. throws env c = None"
  shows "connect env st =
     (None,
      st\<lparr>inputAudioContext := Some 16000, outputAudioContext := Some 24000,
         stream := Some (microphone_tracks env), inputSource := True, processor := True,
         sessionPromise := Some (Pending [])\<rparr>,
      [NewAudioContext 16000, NewAudioContext 24000, GetUserMedia, CreateMediaStreamSource,
       CreateScriptProcessor, LiveConnect])"
  by (simp add: connect_def perform_ok [OF assms] assign_def)

lemma connect_microphone_denied:
  "connect microphone_denied new_LiveClient =
     (Some NotAllowedError, half_connected, [NewAudioContext 16000, NewAudioContext 24000])"
  by (simp add: connect_def microphone_denied_def perform_def assign_def new_LiveClient_def
      half_connected_def)

lemma chained_mono: "chained c xs \<Longrightarrow> c' \<le> c \<Longrightarrow> chained c' xs"
  by (cases xs) auto

lemma chained_sorted: "chained c xs \<Longrightarrow> sorted (map fst xs) \<and> (\<forall>s \<in> set (map fst xs). c \<le> s)"
proof (induction xs arbitrary: c)
  case Nil
  then show ?case by simp
next
  case (Cons x xs)
  obtain s d where x: "x = (s, d)" by (cases x)
  from Cons.prems x have c: "c \<le> s" and d: "0 \<le> d" and r: "chained (s + d) xs" by auto
  from Cons.IH [OF r] have "sorted (map fst xs)" and "\<forall>s' \<in> set (map fst xs). s + d \<le> s'"
    by auto
  with c d x show ?case by fastforce
qed

lemma duration_nonneg: "0 \<le> duration b"
  by (simp add: duration_def)

lemma source_starts_append: "source_starts (xs @ ys) = source_starts xs @ source_starts ys"
  by (induction xs rule: source_starts.induct) auto

lemma handle_audio_scheduled:
  assumes "audio msg = Some b" and "b \<noteq> []" and "outputAudioContext st \<noteq> None"
    and "inbound_buffer atob_fn b = Inr buf"
  shows "handle_audio atob_fn t msg st =
     (None,
      st\<lparr>nextStartTime := max (nextStartTime st) t + duration buf,
         sources := sources st @ [\<lparr>buffer = buf, startTime = max (nextStartTime st) t\<rparr>]\<rparr>,
      [SourceStart (max (nextStartTime st) t) (duration buf)])"
  using assms by (simp add: handle_audio_def Let_def)

lemma handle_transcription_calls:
  "handle_transcription msg st =
     (None, st,
      if transcript_text (inputTranscription msg) \<noteq> []
         \<or> transcript_text (outputTranscription msg) \<noteq> []
      then [OnTranscription (transcript_text (inputTranscription msg))
              (transcript_text (outputTranscription msg))]
      else [])"
  by (simp add: handle_transcription_def Let_def)

lemma handle_transcription_starts:
  "\<exists>cs. handle_transcription msg st = (None, st, cs) \<and> source_starts cs = []"
  by (simp add: handle_transcription_calls)

text \<open>The three ways the audio part of the handler ends.\<close>

lemma handle_audio_cases:
  "handle_audio atob_fn t msg st = (None, st, [])
   \<or> (\<exists>e. handle_audio atob_fn t msg st =
          (Some e, st\<lparr>nextStartTime := max (nextStartTime st) t\<rparr>, []))
   \<or> (\<exists>buf. handle_audio atob_fn t msg st =
          (None,
           st\<lparr>nextStartTime := max (nextStartTime st) t + duration buf,
              sources := sources st @ [\<lparr>buffer = buf, startTime = max (nextStartTime st) t\<rparr>]\<rparr>,
           [SourceStart (max (nextStartTime st) t) (duration buf)]))"
  by (auto simp: handle_audio_def Let_def split: option.splits sum.splits)

lemma onmessage_scheduled:
  assumes "audio msg = Some b" and "b \<noteq> []" and "outputAudioContext st \<noteq> None"
    and "inbound_buffer atob_fn b = Inr buf"
  shows "\<exists>st' cs. onmessage atob_fn t msg st = (None, st', cs)
       \<and> source_starts cs = [(max (nextStartTime st) t, duration buf)]
       \<and> nextStartTime st' = max (nextStartTime st) t + duration buf
       \<and> outputAudioContext st' = outputAudioContext st"
  by (simp add: onmessage_def handle_audio_scheduled [OF assms] handle_transcription_calls)

lemma onmessage_chained:
  assumes "onmessage atob_fn t msg st = (r, st', cs)"
  shows "(source_starts cs = [] \<and> nextStartTime st \<le> nextStartTime st')
       \<or> (\<exists>d. source_starts cs = [(max (nextStartTime st) t, d)] \<and> 0 \<le> d
              \<and> nextStartTime st' = max (nextStartTime st) t + d)"
proof -
  have tr: "\<And>s. \<exists>cs. handle_transcription msg s = (None, s, cs) \<and> source_starts cs = []"
    by (rule handle_transcription_starts)
  from handle_audio_cases [of atob_fn t msg st]
  consider (skip) "handle_audio atob_fn t msg st = (None, st, [])"
    | (fail) e where "handle_audio atob_fn t msg st =
          (Some e, st\<lparr>nextStartTime := max (nextStartTime st) t\<rparr>, [])"
    | (sched) buf where "handle_audio atob_fn t msg st =
          (None,
           st\<lparr>nextStartTime := max (nextStartTime st) t + duration buf,
              sources := sources st @ [\<lparr>buffer = buf, startTime = max (nextStartTime st) t\<rparr>]\<rparr>,
           [SourceStart (max (nextStartTime st) t) (duration buf)])"
    by blast
  then show ?thesis
  proof cases
    case skip
    from tr [of st] obtain cs' where "handle_transcription msg st = (None, st, cs')"
      and "source_starts cs' = []" by blast
    with skip assms show ?thesis by (auto simp: onmessage_def)
  next
    case fail
    with assms show ?thesis by (auto simp: onmessage_def)
  next
    case sched
    define s1 where "s1 = st\<lparr>nextStartTime := max (nextStartTime st) t + duration buf,
              sources := sources st @ [\<lparr>buffer = buf, startTime = max (nextStartTime st) t\<rparr>]\<rparr>"
    from tr [of s1] obtain cs' where "handle_transcription msg s1 = (None, s1, cs')"
      and "source_starts cs' = []" by blast
    with sched assms have "source_starts cs = [(max (nextStartTime st) t, duration buf)]"
      and "nextStartTime st' = max (nextStartTime st) t + duration buf"
      by (auto simp: onmessage_def s1_def)
    with duration_nonneg [of buf] show ?thesis by blast
  qed
qed

lemma receive_all_chained:
  "chained (nextStartTime st) (source_starts (snd (receive_all atob_fn evs st)))"
proof (induction evs arbitrary: st)
  case Nil
  show ?case by simp
next
  case (Cons ev evs)
  obtain t msg where ev: "ev = (t, msg)" by (cases ev)
  obtain r st' cs where o: "onmessage atob_fn t msg st = (r, st', cs)"
    by (cases "onmessage atob_fn t msg st")
  obtain st'' cs' where rest: "receive_all atob_fn evs st' = (st'', cs')"
    by (cases "receive_all atob_fn evs st'")
  from Cons.IH [of st'] rest have ih: "chained (nextStartTime st') (source_starts cs')" by simp
  from onmessage_chained [OF o] ih
  have "chained (nextStartTime st) (source_starts cs @ source_starts cs')"
    by (auto intro: chained_mono)
  then show ?case by (simp add: ev o rest source_starts_append)
qed

lemma chunk_buffer: "inbound_buffer atob ''AAAAAAAA'' = Inr silence"
  by (simp add: inbound_buffer_def decode_def atob_def strip_padding_def ascii_space_def
      b64_value_def decodeAudioData_def to_int16_def Let_def upt_rec silence_def)

subsection \<open>Playback schedule\<close>

text \<open>
  C2. An inbound chunk that decodes, received while the output context exists, is started
  at the maximum of the cursor \<^verbatim>\<open>nextStartTime\<close> and the clock reading, and the cursor
  is then that start time plus the duration of the buffer. Hence, for two such chunks
  handled one after the other, the second starts at the end of the first whenever the
  clock has not passed that end, and never before the start of the first. For any
  messages handled in their order of arrival, every buffer is started at or after the
  end of the buffer started before it, so the start times never decrease.
\<close>

theorem C2_playback_schedule:
  assumes "outputAudioContext st \<noteq> None"
    and "audio m1 = Some b1" and "b1 \<noteq> []" and "inbound_buffer atob_fn b1 = Inr buf1"
    and "audio m2 = Some b2" and "b2 \<noteq> []" and "inbound_buffer atob_fn b2 = Inr buf2"
  shows "(\<exists>st1 cs1 st2 cs2.
            onmessage atob_fn t1 m1 st = (None, st1, cs1)
          \<and> source_starts cs1 = [(max (nextStartTime st) t1, duration buf1)]
          \<and> nextStartTime st1 = max (nextStartTime st) t1 + duration buf1
          \<and> onmessage atob_fn t2 m2 st1 = (None, st2, cs2)
          \<and> source_starts cs2 = [(max (nextStartTime st1) t2, duration buf2)]
          \<and> nextStartTime st2 = max (nextStartTime st1) t2 + duration buf2
          \<and> (t2 \<le> nextStartTime st1 \<longrightarrow>
                max (nextStartTime st1) t2 = max (nextStartTime st) t1 + duration buf1)
          \<and> max (nextStartTime st) t1 \<le> max (nextStartTime st1) t2)
       \<and> chained (nextStartTime st0) (source_starts (snd (receive_all atob_fn evs st0)))
       \<and> sorted (map fst (source_starts (snd (receive_all atob_fn evs st0))))"
proof -
  from onmessage_scheduled [OF assms(2,3,1,4), of t1]
  obtain st1 cs1 where 1: "onmessage atob_fn t1 m1 st = (None, st1, cs1)"
    and s1: "source_starts cs1 = [(max (nextStartTime st) t1, duration buf1)]"
    and n1: "nextStartTime st1 = max (nextStartTime st) t1 + duration buf1"
    and c1: "outputAudioContext st1 = outputAudioContext st"
    by blast
  from c1 assms(1) have ctx1: "outputAudioContext st1 \<noteq> None" by simp
  from onmessage_scheduled [OF assms(5,6) ctx1 assms(7), of t2]
  obtain st2 cs2 where 2: "onmessage atob_fn t2 m2 st1 = (None, st2, cs2)"
    and s2: "source_starts cs2 = [(max (nextStartTime st1) t2, duration buf2)]"
    and n2: "nextStartTime st2 = max (nextStartTime st1) t2 + duration buf2"
    by blast
  have b: "t2 \<le> nextStartTime st1 \<longrightarrow>
      max (nextStartTime st1) t2 = max (nextStartTime st) t1 + duration buf1"
    using n1 by simp
  have o: "max (nextStartTime st) t1 \<le> max (nextStartTime st1) t2"
    using n1 duration_nonneg [of buf1] by linarith
  have ch: "chained (nextStartTime st0) (source_starts (snd (receive_all atob_fn evs st0)))"
    by (rule receive_all_chained)
  from chained_sorted [OF ch]
  have so: "sorted (map fst (source_starts (snd (receive_all atob_fn evs st0))))" by simp
  from 1 s1 n1 2 s2 n2 b o ch so show ?thesis by blast
qed

text \<open>
  C2 on two chunks of three sample frames each, the first arriving at clock reading
  1/2 with the cursor at 0, the second at a clock reading before the end of the first.
\<close>

theorem C2_playback_schedule_witness:
  "outputAudioContext connected \<noteq> None
   \<and> audio chunk_message = Some ''AAAAAAAA''
   \<and> inbound_buffer atob ''AAAAAAAA'' = Inr silence
   \<and> duration silence = 1 / 8000
   \<and> source_starts (snd (snd (onmessage atob (1 / 2) chunk_message connected))) =
       [(1 / 2, 1 / 8000)]
   \<and> nextStartTime (fst (snd (onmessage atob (1 / 2) chunk_message connected))) = 4001 / 8000
   \<and> source_starts (snd (receive_all atob [(1 / 2, chunk_message), (0, chunk_message)] connected))
       = [(1 / 2, 1 / 8000), (4001 / 8000, 1 / 8000)]"
proof -
  have c: "outputAudioContext connected \<noteq> None" by (simp add: connected_def)
  have a: "audio chunk_message = Some ''AAAAAAAA''" by (simp add: chunk_message_def)
  have n: "''AAAAAAAA'' \<noteq> []" by simp
  have z: "nextStartTime connected = 0" by (simp add: connected_def)
  have d: "duration silence = 1 / 8000" by (simp add: duration_def silence_def)
  from C2_playback_schedule
    [OF c a n chunk_buffer a n chunk_buffer, of "1 / 2" 0 connected "[]"]
  obtain st1 cs1 st2 cs2 where
    "onmessage atob (1 / 2) chunk_message connected = (None, st1, cs1)"
    "source_starts cs1 = [(max (nextStartTime connected) (1 / 2), duration silence)]"
    "nextStartTime st1 = max (nextStartTime connected) (1 / 2) + duration silence"
    "onmessage atob 0 chunk_message st1 = (None, st2, cs2)"
    "source_starts cs2 = [(max (nextStartTime st1) 0, duration silence)]"
    by blast
  with c a chunk_buffer d z show ?thesis by (simp add: source_starts_append)
qed

subsection \<open>Disconnect\<close>

text \<open>
  C3, as the code has it. \<^verbatim>\<open>disconnect\<close> on an object that was never connected does
  nothing and does not throw. In any state, when no release call throws and the session
  promise, if there is one, is or becomes fulfilled, \<^verbatim>\<open>disconnect\<close> returns without an
  error, having closed the session, stopped every track, closed the audio contexts the
  object holds and stopped its sources; it leaves the session promise cleared and the
  sources empty, and a second call then returns without an error as well and closes no
  session again. The steps are not isolated: when the session promise is rejected,
  \<^verbatim>\<open>disconnect\<close> throws that error and makes no release call.
\<close>

theorem C3_disconnect_sequence:
  "disconnect env new_LiveClient = (None, new_LiveClient, [])
   \<and> ((\<forall>c. throws env c = None) \<and>
        (sessionPromise st = None
         \<or> (\<exists>p. sessionPromise st = Some p \<and> fst (settle env p) = Fulfilled))
       \<longrightarrow> disconnect env st = (None, disconnected st, release_calls env st)
           \<and> disconnect env (disconnected st) =
               (None, disconnected st, release_calls env (disconnected st))
           \<and> SessionClose \<notin> set (release_calls env (disconnected st)))
   \<and> (sessionPromise st = Some (Rejected e) \<longrightarrow> disconnect env st = (Some e, st, []))"
proof (intro conjI impI)
  show "disconnect env new_LiveClient = (None, new_LiveClient, [])" by (rule disconnect_new)
next
  assume a: "(\<forall>c. throws env c = None) \<and>
        (sessionPromise st = None
         \<or> (\<exists>p. sessionPromise st = Some p \<and> fst (settle env p) = Fulfilled))"
  then show "disconnect env st = (None, disconnected st, release_calls env st)"
    by (intro disconnect_ok) auto
  have d: "disconnect env (disconnected st) =
      (None, disconnected (disconnected st), release_calls env (disconnected st))"
    using a by (intro disconnect_ok) (auto simp: disconnected_def)
  then show "disconnect env (disconnected st) =
      (None, disconnected st, release_calls env (disconnected st))"
    by (simp add: disconnected_def)
  show "SessionClose \<notin> set (release_calls env (disconnected st))"
    by (auto simp: release_calls_def disconnected_def split: option.splits)
next
  assume "sessionPromise st = Some (Rejected e)"
  then show "disconnect env st = (Some e, st, [])" by (rule disconnect_rejected)
qed

text \<open>
  C3 on the quiet platform. On the connected object the first call releases
  everything, the second stops the track and closes the contexts again, and neither
  throws. On the object in the middle of \<^verbatim>\<open>connect\<close>, which holds the two audio
  contexts only, the call closes them. On the object whose network stream could not be
  opened the call throws.
\<close>

theorem C3_disconnect_witness:
  "(\<forall>c. throws quiet c = None)
   \<and> sessionPromise connected = Some (Pending [])
   \<and> fst (settle quiet (Pending [])) = Fulfilled
   \<and> disconnect quiet connected =
       (None, disconnected connected,
        [SessionClose, TrackStop 0, ContextClose InputContext, ContextClose OutputContext])
   \<and> disconnect quiet (disconnected connected) =
       (None, disconnected connected,
        [TrackStop 0, ContextClose InputContext, ContextClose OutputContext])
   \<and> sessionPromise half_connected = None
   \<and> disconnect quiet half_connected =
       (None, half_connected, [ContextClose InputContext, ContextClose OutputContext])
   \<and> sessionPromise session_failed = Some (Rejected NetworkError)
   \<and> fst (disconnect quiet session_failed) = Some NetworkError"
  using C3_disconnect_sequence [of quiet connected NetworkError]
    C3_disconnect_sequence [of quiet half_connected NetworkError]
    C3_disconnect_sequence [of quiet session_failed NetworkError]
  by (simp add: quiet_def connected_def session_failed_def half_connected_def new_LiveClient_def
      settle_def release_calls_def disconnected_def)

text \<open>
  C3 as worded fails when the network stream could not be opened: the object holds a
  stream with a live track and two open audio contexts, \<^verbatim>\<open>disconnect\<close> throws the
  error of the session promise, and it has stopped no track and closed no context.
\<close>

theorem C3_disconnect_throws_counterexample:
  "stream session_failed = Some 1
   \<and> inputAudioContext session_failed = Some 16000
   \<and> outputAudioContext session_failed = Some 24000
   \<and> disconnect quiet session_failed = (Some NetworkError, session_failed, [])"
  by (simp add: session_failed_def connected_def disconnect_def close_session_def
      await_session_def settle_def)

subsection \<open>Captured frames\<close>

text \<open>
  C4, as the code has it. The capture callback never throws and never waits. A frame
  captured while the object has no session promise is dropped. A frame captured while
  the session promise is pending is kept as a reaction on the promise, after the frames
  captured before it, and when the network stream opens all of them are sent, in the
  order of capture.
\<close>

theorem C4_frames_wait_for_the_session:
  "fst (onaudioprocess createBlob inputData st) = None
   \<and> (sessionPromise st = None \<longrightarrow> onaudioprocess createBlob inputData st = (None, st, []))
   \<and> (sessionPromise st = Some (Pending reactions) \<longrightarrow>
         onaudioprocess createBlob inputData st =
           (None, st\<lparr>sessionPromise := Some (Pending (reactions @ [createBlob inputData]))\<rparr>, [])
         \<and> (settles env = None \<longrightarrow>
               session_settles env
                 (st\<lparr>sessionPromise := Some (Pending (reactions @ [createBlob inputData]))\<rparr>) =
               (None, st\<lparr>sessionPromise := Some Fulfilled\<rparr>,
                map SendRealtimeInput (reactions @ [createBlob inputData]))))"
  by (auto simp: onaudioprocess_def session_settles_def settle_def Let_def
      split: option.splits promise.splits)

text \<open>
  C4 on a frame captured by an object that was never connected, and on a frame captured
  by the connected object before the network stream is open.
\<close>

theorem C4_frames_witness:
  "sessionPromise (new_LiveClient :: nat LiveClient) = None
   \<and> onaudioprocess (\<lambda>x. x) (7::nat) new_LiveClient = (None, new_LiveClient, [])
   \<and> sessionPromise connected = Some (Pending [])
   \<and> settles quiet = None
   \<and> onaudioprocess (\<lambda>x. x) 8 connected =
       (None, connected\<lparr>sessionPromise := Some (Pending [8])\<rparr>, [])
   \<and> session_settles quiet (connected\<lparr>sessionPromise := Some (Pending [8])\<rparr>) =
       (None, connected\<lparr>sessionPromise := Some Fulfilled\<rparr>, [SendRealtimeInput 8])"
  using C4_frames_wait_for_the_session [of "\<lambda>x. x" "7::nat" new_LiveClient "[]" quiet]
    C4_frames_wait_for_the_session [of "\<lambda>x. x" "8::nat" connected "[]" quiet]
  by (simp add: new_LiveClient_def connected_def quiet_def)

text \<open>
  C4 as worded fails on the connected object whose network stream is not yet open: the
  frame 7 is not dropped but kept on the pending promise, and it is sent when the stream
  opens.
\<close>

theorem C4_frame_buffered_counterexample:
  "onaudioprocess (\<lambda>x. x) 7 connected =
     (None, connected\<lparr>sessionPromise := Some (Pending [7])\<rparr>, [])
   \<and> session_settles quiet (connected\<lparr>sessionPromise := Some (Pending [7])\<rparr>) =
     (None, connected\<lparr>sessionPromise := Some Fulfilled\<rparr>, [SendRealtimeInput 7])"
  by (simp add: onaudioprocess_def session_settles_def settle_def connected_def quiet_def)

subsection \<open>Failure of connect\<close>

text \<open>
  C7, as the code has it. When \<^verbatim>\<open>connect\<close> on a new object fails at an acquisition
  step, the error reaches the caller and \<^verbatim>\<open>connect\<close> has released nothing: each audio
  context and the stream acquired before the failing step is held by the object, and a
  later \<^verbatim>\<open>disconnect\<close> whose calls do not throw closes these contexts and stops the
  tracks of this stream. \<^verbatim>\<open>connect\<close> fails only when a platform call throws: a
  network stream that cannot be opened does not make it fail.
\<close>

theorem C7_connect_failure_keeps_resources:
  "(connect env new_LiveClient = (Some e, st', cs) \<longrightarrow>
      filter is_release cs = []
      \<and> (NewAudioContext 16000 \<in> set cs \<longrightarrow> inputAudioContext st' = Some 16000)
      \<and> (NewAudioContext 24000 \<in> set cs \<longrightarrow> outputAudioContext st' = Some 24000)
      \<and> (GetUserMedia \<in> set cs \<longrightarrow> stream st' = Some (microphone_tracks env))
      \<and> ((\<forall>c. throws env' c = None) \<longrightarrow>
           disconnect env' st' = (None, disconnected st', release_calls env' st')
           \<and> (NewAudioContext 16000 \<in> set cs \<longrightarrow>
                 ContextClose InputContext \<in> set (release_calls env' st'))
           \<and> (NewAudioContext 24000 \<in> set cs \<longrightarrow>
                 ContextClose OutputContext \<in> set (release_calls env' st'))
           \<and> (GetUserMedia \<in> set cs \<longrightarrow>
                 set (map TrackStop [0..<microphone_tracks env])
                   \<subseteq> set (release_calls env' st'))))
   \<and> ((\<forall>c. throws env c = None) \<longrightarrow> fst (connect env st) = None)"
proof (intro conjI impI)
  assume c: "connect env new_LiveClient = (Some e, st', cs)"
  note f = connect_failure [OF c]
  from f show "filter is_release cs = []" by simp
  { assume "NewAudioContext 16000 \<in> set cs"
    with f show "inputAudioContext st' = Some 16000" by simp }
  { assume "NewAudioContext 24000 \<in> set cs"
    with f show "outputAudioContext st' = Some 24000" by simp }
  { assume "GetUserMedia \<in> set cs"
    with f show "stream st' = Some (microphone_tracks env)" by simp }
  assume q: "\<forall>c. throws env' c = None"
  from f have n: "sessionPromise st' = None" by (simp add: new_LiveClient_def)
  show "disconnect env' st' = (None, disconnected st', release_calls env' st')"
    using q n by (intro disconnect_ok) auto
  { assume "NewAudioContext 16000 \<in> set cs"
    with f show "ContextClose InputContext \<in> set (release_calls env' st')"
      by (simp add: release_calls_def) }
  { assume "NewAudioContext 24000 \<in> set cs"
    with f show "ContextClose OutputContext \<in> set (release_calls env' st')"
      by (simp add: release_calls_def) }
  { assume "GetUserMedia \<in> set cs"
    with f show "set (map TrackStop [0..<microphone_tracks env]) \<subseteq> set (release_calls env' st')"
      by (auto simp: release_calls_def) }
next
  assume "\<forall>c. throws env c = None"
  then show "fst (connect env st) = None" by (simp add: connect_ok)
qed

text \<open>
  C7 with the microphone denied: both audio contexts stay with the object, and a later
  \<^verbatim>\<open>disconnect\<close> on the quiet platform closes them; and \<^verbatim>\<open>connect\<close> on the quiet
  platform does not fail.
\<close>

theorem C7_connect_failure_witness:
  "connect microphone_denied new_LiveClient =
     (Some NotAllowedError, half_connected, [NewAudioContext 16000, NewAudioContext 24000])
   \<and> (\<forall>c. throws quiet c = None)
   \<and> disconnect quiet half_connected =
       (None, half_connected, [ContextClose InputContext, ContextClose OutputContext])
   \<and> fst (connect quiet connected) = None"
  using C7_connect_failure_keeps_resources
      [of microphone_denied NotAllowedError half_connected
        "[NewAudioContext 16000, NewAudioContext 24000]" quiet connected]
    C7_connect_failure_keeps_resources
      [of quiet NotAllowedError connected "[]" quiet connected]
    connect_microphone_denied
  by (simp add: quiet_def release_calls_def disconnected_def new_LiveClient_def
      half_connected_def)

text \<open>
  C7 as worded fails when the microphone is denied: \<^verbatim>\<open>connect\<close> throws, the two
  audio contexts it created are held by the object, and it has closed neither.
\<close>

theorem C7_connect_leak_counterexample:
  "connect microphone_denied new_LiveClient =
     (Some NotAllowedError, half_connected, [NewAudioContext 16000, NewAudioContext 24000])
   \<and> inputAudioContext half_connected = Some 16000
   \<and> outputAudioContext half_connected = Some 24000"
  by (simp add: connect_microphone_denied half_connected_def)

subsection \<open>Transcription callback\<close>

text \<open>
  C8, as the code has it. When the audio part of a message, if it has one, is handled
  without an error, the transcription callback is called once with the two texts if at
  least one of them is not empty, and it is not called otherwise. It is never called
  when both texts are empty or absent.
\<close>

theorem C8_transcription_callback:
  "(fst (handle_audio atob_fn t msg st) = None \<longrightarrow>
      transcription_calls (snd (snd (onmessage atob_fn t msg st))) =
        (if transcript_text (inputTranscription msg) \<noteq> []
            \<or> transcript_text (outputTranscription msg) \<noteq> []
         then [(transcript_text (inputTranscription msg),
                transcript_text (outputTranscription msg))]
         else []))
   \<and> (transcript_text (inputTranscription msg) = []
        \<and> transcript_text (outputTranscription msg) = [] \<longrightarrow>
      transcription_calls (snd (snd (onmessage atob_fn t msg st))) = [])"
  using handle_audio_cases [of atob_fn t msg st]
  by (auto simp: onmessage_def handle_transcription_calls)

text \<open>
  C8 on a message with a chunk that decodes and an outbound transcript, and on a
  message whose transcription object has no text.
\<close>

theorem C8_transcription_witness:
  "fst (handle_audio atob 0 chunk_message connected) = None
   \<and> transcription_calls (snd (snd (onmessage atob 0 chunk_message connected))) = [([], ''ok'')]
   \<and> transcript_text (inputTranscription empty_transcript_message) = []
   \<and> transcript_text (outputTranscription empty_transcript_message) = []
   \<and> transcription_calls (snd (snd (onmessage atob 0 empty_transcript_message connected))) = []"
proof -
  have h: "fst (handle_audio atob 0 chunk_message connected) = None"
    by (simp add: handle_audio_def chunk_message_def connected_def chunk_buffer Let_def)
  from C8_transcription_callback [of atob 0 chunk_message connected]
    C8_transcription_callback [of atob 0 empty_transcript_message connected]
    h
  show ?thesis by (simp add: chunk_message_def empty_transcript_message_def transcript_text_def)
qed

text \<open>
  C8 as worded fails on a message that carries an inbound transcript and an audio part
  that is not base64: the handler throws while decoding the audio, and the callback is
  not called.
\<close>

theorem C8_no_callback_counterexample:
  "transcript_text (inputTranscription bad_audio_message) = ''hi''
   \<and> onmessage atob 0 bad_audio_message connected = (Some InvalidCharacterError, connected, [])"
  by (simp add: bad_audio_message_def transcript_text_def onmessage_def handle_audio_def
      inbound_buffer_def decode_def atob_def strip_padding_def ascii_space_def b64_value_def
      connected_def Let_def)

end
